theory Spec2Isabelle
  imports Main "HOL-Library.AList" "HOL-Library.Sublist" "HOL-Library.Word"
begin

section \<open>Python values shared by the scripts\<close>

text \<open>
  The scripts under \<^verbatim>\<open>examples/YOLOv8-ONNXRuntime-Rust/scripts\<close> are Python. A Python
  \<^verbatim>\<open>str\<close> is modelled as a \<open>string\<close> whose characters are the code points below 256, a
  \<^verbatim>\<open>dict\<close> with string keys as an association list in insertion order (assignment to
  a present key keeps its position, which is \<open>AList.update\<close>), and an exception that is
  raised as the left summand of a sum type.
\<close>

datatype exn =
    ValueError
  | IndexError
  | ZeroDivisionError
  | FileNotFoundError string
  | FileExistsError string
  | KeyError string
  | LibraryError string

type_synonym 'a result = "exn + 'a"

type_synonym path = string

type_synonym block = "(string \<times> string) list"

text \<open>
  \<^verbatim>\<open>str.isspace\<close> on the code points below 256: tab, line feed, vertical tab, form
  feed, carriage return, the four separators 28..31, space, NEL (133) and the
  no-break space (160).
\<close>

definition py_isspace :: "char \<Rightarrow> bool" where
  "py_isspace c = ((of_char c :: nat) \<in> {9, 10, 11, 12, 13, 28, 29, 30, 31, 32, 133, 160})"

text \<open>\<^verbatim>\<open>s.strip()\<close>: whitespace removed at both ends.\<close>

definition py_strip :: "string \<Rightarrow> string" where
  "py_strip s = rev (dropWhile py_isspace (rev (dropWhile py_isspace s)))"

text \<open>\<^verbatim>\<open>s.startswith(p)\<close>.\<close>

definition startswith :: "string \<Rightarrow> string \<Rightarrow> bool" where
  "startswith s p = (take (length p) s = p)"

text \<open>\<^verbatim>\<open>s.endswith(p)\<close>.\<close>

definition endswith :: "string \<Rightarrow> string \<Rightarrow> bool" where
  "endswith s p = (length p \<le> length s \<and> drop (length s - length p) s = p)"

text \<open>\<^verbatim>\<open>s.split(c)\<close> for a one-character separator: never an empty list.\<close>

fun py_split :: "char \<Rightarrow> string \<Rightarrow> string list" where
  "py_split c [] = [[]]"
| "py_split c (x # xs) =
     (if x = c then [] # py_split c xs
      else (case py_split c xs of
              [] \<Rightarrow> [[x]]
            | p # ps \<Rightarrow> (x # p) # ps))"

text \<open>The slice \<^verbatim>\<open>s[1:-1]\<close>: indices from 1 up to, not including, the last.\<close>

definition slice_1_m1 :: "string \<Rightarrow> string" where
  "slice_1_m1 s = take (length s - 2) (drop 1 s)"

text \<open>
  A file opened in text mode translates \<^verbatim>\<open>\r\n\<close> and a lone \<^verbatim>\<open>\r\<close> to \<^verbatim>\<open>\n\<close>;
  \<^verbatim>\<open>readlines\<close> then cuts the text after every \<^verbatim>\<open>\n\<close> and keeps the terminator.
\<close>

fun universal_newlines :: "string \<Rightarrow> string" where
  "universal_newlines [] = []"
| "universal_newlines [c] = (if c = CHR 0x0D then [CHR 0x0A] else [c])"
| "universal_newlines (c # d # cs) =
     (if c = CHR 0x0D then
        (if d = CHR 0x0A then CHR 0x0A # universal_newlines cs
         else CHR 0x0A # universal_newlines (d # cs))
      else c # universal_newlines (d # cs))"

fun split_keepends :: "string \<Rightarrow> string list" where
  "split_keepends [] = []"
| "split_keepends (c # cs) =
     (if c = CHR 0x0A then [c] # split_keepends cs
      else (case split_keepends cs of
              [] \<Rightarrow> [[c]]
            | l # ls \<Rightarrow> (c # l) # ls))"

definition readlines :: "string \<Rightarrow> string list" where
  "readlines content = split_keepends (universal_newlines content)"

section \<open>The Darknet config reader\<close>

text \<open>
  \<^verbatim>\<open>YOLOFastestConverter.parse_cfg\<close> of \<^verbatim>\<open>convert_fastest_to_onnx.py\<close>. The loop state
  is the pair of the source's locals \<^verbatim>\<open>blocks\<close> and \<^verbatim>\<open>block\<close>; the tuple assignment
  \<^verbatim>\<open>key, value = line.split('=')\<close> raises \<^verbatim>\<open>ValueError\<close> unless the split has exactly
  two parts.
\<close>

fun parse_cfg_loop :: "string list \<Rightarrow> block list \<times> block \<Rightarrow> (block list \<times> block) result" where
  "parse_cfg_loop [] st = Inr st"
| "parse_cfg_loop (raw # rest) (blocks, block) =
     (let line = py_strip raw in
      if line = [] \<or> startswith line ''#'' then parse_cfg_loop rest (blocks, block)
      else if startswith line ''['' then
        parse_cfg_loop rest
          (if block \<noteq> [] then blocks @ [block] else blocks,
           [(''type'', py_strip (slice_1_m1 line))])
      else (case py_split (CHR ''='') line of
              [key, value] \<Rightarrow>
                parse_cfg_loop rest (blocks, AList.update (py_strip key) (py_strip value) block)
            | _ \<Rightarrow> Inl ValueError))"

definition parse_cfg_lines :: "string list \<Rightarrow> block list result" where
  "parse_cfg_lines lines =
     (case parse_cfg_loop lines ([], []) of
        Inl e \<Rightarrow> Inl e
      | Inr (blocks, block) \<Rightarrow> Inr (if block \<noteq> [] then blocks @ [block] else blocks))"

text \<open>
  The file system is a finite table from paths to file contents; opening a path that
  is not there raises \<^verbatim>\<open>FileNotFoundError\<close>.
\<close>

type_synonym fs = "(path \<times> string) list"

definition fs_open :: "fs \<Rightarrow> path \<Rightarrow> string result" where
  "fs_open files p = (case map_of files p of None \<Rightarrow> Inl (FileNotFoundError p) | Some content \<Rightarrow> Inr content)"

definition parse_cfg :: "fs \<Rightarrow> path \<Rightarrow> block list result" where
  "parse_cfg files cfg_file =
     (case fs_open files cfg_file of
        Inl e \<Rightarrow> Inl e
      | Inr content \<Rightarrow> parse_cfg_lines (readlines content))"

subsection \<open>The reader as the specification describes it\<close>

text \<open>
  The specification's reading of a config file, written from its words and kept apart
  from \<open>parse_cfg\<close>: the lines that count are the stripped lines that are neither blank
  nor comments; a header line starts with an opening bracket; the file is well-formed
  when every header line also ends with the closing bracket and every other line that
  counts holds exactly one equals sign. The lines are cut into sections at the header
  lines, and a section's block starts from the header text under the key \<open>type\<close> and
  records the section's lines in order.
\<close>

definition cfg_lines :: "string list \<Rightarrow> string list" where
  "cfg_lines raws = filter (\<lambda>l. l \<noteq> [] \<and> \<not> startswith l ''#'') (map py_strip raws)"

definition is_header :: "string \<Rightarrow> bool" where
  "is_header l = startswith l ''[''"

definition wf_line :: "string \<Rightarrow> bool" where
  "wf_line l = (if is_header l then endswith l '']'' else count_list l (CHR ''='') = 1)"

definition wf_cfg :: "string list \<Rightarrow> bool" where
  "wf_cfg raws = list_all wf_line (cfg_lines raws)"

text \<open>Only the lines that are not headers are constrained here: one equals sign each.\<close>

definition keyval_ok :: "string list \<Rightarrow> bool" where
  "keyval_ok raws = list_all (\<lambda>l. is_header l \<or> count_list l (CHR ''='') = 1) (cfg_lines raws)"

definition key_of :: "string \<Rightarrow> string" where
  "key_of l = py_strip (takeWhile (\<lambda>c. c \<noteq> CHR ''='') l)"

definition value_of :: "string \<Rightarrow> string" where
  "value_of l = py_strip (drop 1 (dropWhile (\<lambda>c. c \<noteq> CHR ''='') l))"

definition header_text :: "string \<Rightarrow> string" where
  "header_text h = py_strip (butlast (tl h))"

definition record_line :: "block \<Rightarrow> string \<Rightarrow> block" where
  "record_line b l = AList.update (key_of l) (value_of l) b"

function sections :: "string list \<Rightarrow> (string \<times> string list) list" where
  "sections [] = []"
| "sections (h # ls) =
     (h, takeWhile (\<lambda>l. \<not> is_header l) ls) # sections (dropWhile (\<lambda>l. \<not> is_header l) ls)"
  by pat_completeness auto
termination
  by (relation "measure length") (auto simp: less_Suc_eq_le length_dropWhile_le)

text \<open>
  Lines before the first header form a section of their own, without a header; it is
  there only when such lines exist.
\<close>

definition all_sections :: "string list \<Rightarrow> (string option \<times> string list) list" where
  "all_sections ls =
     (let lead = takeWhile (\<lambda>l. \<not> is_header l) ls;
          rest = dropWhile (\<lambda>l. \<not> is_header l) ls
      in (if lead = [] then [] else [(None, lead)]) @
         map (\<lambda>(h, kvs). (Some h, kvs)) (sections rest))"

definition block_of_section :: "string option \<times> string list \<Rightarrow> block" where
  "block_of_section sec =
     foldl record_line
       (case fst sec of None \<Rightarrow> [] | Some h \<Rightarrow> [(''type'', header_text h)]) (snd sec)"

definition spec_blocks :: "string list \<Rightarrow> block list" where
  "spec_blocks ls = map block_of_section (all_sections ls)"

text \<open>
  What a section binds a key to: the value of the last of its lines with that key,
  and the header text for \<open>type\<close> when no line has it.
\<close>

definition final_binding :: "string option \<times> string list \<Rightarrow> string \<Rightarrow> string option" where
  "final_binding sec k =
     (case filter (\<lambda>l. key_of l = k) (snd sec) of
        [] \<Rightarrow> (case fst sec of
                 None \<Rightarrow> None
               | Some h \<Rightarrow> if k = ''type'' then Some (header_text h) else None)
      | m # ms \<Rightarrow> Some (value_of (last (m # ms))))"

text \<open>Auxiliary notions for the loop invariant of \<open>parse_cfg_loop\<close>.\<close>

definition finish :: "block list \<times> block \<Rightarrow> block list" where
  "finish st = (if snd st \<noteq> [] then fst st @ [snd st] else fst st)"

definition blocks_from :: "block \<Rightarrow> string list \<Rightarrow> block list" where
  "blocks_from b ls =
     (let b' = foldl record_line b (takeWhile (\<lambda>l. \<not> is_header l) ls)
      in (if b' = [] then [] else [b']) @
         map (\<lambda>(h, kvs). block_of_section (Some h, kvs))
           (sections (dropWhile (\<lambda>l. \<not> is_header l) ls)))"

text \<open>Example files.\<close>

definition example_cfg :: string where
  "example_cfg =
     ''# yolo'' @ [CHR 0x0D, CHR 0x0A] @ [CHR 0x0A] @
     ''[net]'' @ [CHR 0x0A] @
     '' width = 320 '' @ [CHR 0x0A] @
     ''[ convolutional ]'' @ [CHR 0x0A] @
     ''filters=8'' @ [CHR 0x0A] @
     ''filters = 16''"

definition odd_cfg :: string where
  "odd_cfg = ''[net'' @ [CHR 0x0A] @ ''?! = ] x [''"

definition bad_cfg :: string where
  "bad_cfg = ''[net]'' @ [CHR 0x0A] @ ''width''"

section \<open>The Darknet weights reader\<close>

text \<open>
  \<^verbatim>\<open>YOLOFastestConverter.load_weights\<close> opens the file in binary mode and calls
  \<^verbatim>\<open>np.fromfile\<close> twice on the same file object: first for 5 items of type int32, then
  for all remaining items of type float32. A file object is its bytes and a position.
  \<^verbatim>\<open>np.fromfile\<close> with a count reads as many whole items as are there, up to the count,
  and leaves the position after the bytes consumed; without a count it reads the whole
  items that remain. A float32 value is carried as its 32-bit pattern (the bytes are
  reinterpreted, not converted), an int32 as the signed reading of the pattern, both
  little-endian.
\<close>

record file_obj =
  fbytes :: string
  fpos :: nat

function chunks :: "nat \<Rightarrow> 'a list \<Rightarrow> 'a list list" where
  "chunks n xs = (if n = 0 \<or> length xs < n then [] else take n xs # chunks n (drop n xs))"
  by pat_completeness auto
termination
  by (relation "measure (\<lambda>(n, xs). length xs)") auto

definition np_fromfile :: "file_obj \<Rightarrow> nat \<Rightarrow> nat option \<Rightarrow> string list \<times> file_obj" where
  "np_fromfile f itemsize count =
     (let avail = length (fbytes f) - fpos f;
          n = (case count of None \<Rightarrow> avail div itemsize | Some c \<Rightarrow> min c (avail div itemsize));
          consumed = (case count of None \<Rightarrow> n * itemsize | Some c \<Rightarrow> min (c * itemsize) avail)
      in (chunks itemsize (take (n * itemsize) (drop (fpos f) (fbytes f))),
          f\<lparr>fpos := fpos f + consumed\<rparr>))"

definition le_nat :: "string \<Rightarrow> nat" where
  "le_nat bs = foldr (\<lambda>c acc. of_char c + 256 * acc) bs 0"

definition int32_of :: "string \<Rightarrow> int" where
  "int32_of bs = sint (word_of_nat (le_nat bs) :: 32 word)"

type_synonym float32 = "32 word"

definition float32_of :: "string \<Rightarrow> float32" where
  "float32_of bs = word_of_nat (le_nat bs)"


definition load_weights_read :: "string \<Rightarrow> int list \<times> float32 list" where
  "load_weights_read content =
     (let f = \<lparr>fbytes = content, fpos = 0\<rparr>;
          (header, f1) = np_fromfile f 4 (Some 5);
          (weights, f2) = np_fromfile f1 4 None
      in (map int32_of header, map float32_of weights))"

definition load_weights :: "fs \<Rightarrow> path \<Rightarrow> float32 list result" where
  "load_weights files weights_file =
     (case fs_open files weights_file of
        Inl e \<Rightarrow> Inl e
      | Inr content \<Rightarrow> Inr (snd (load_weights_read content)))"

text \<open>A weights file of 27 bytes: the header, one value and three stray bytes.\<close>

definition example_weights :: string where
  "example_weights = ''aaaabbbbccccddddeeee'' @ [CHR 0x00, CHR 0x00, CHR 0x80, CHR 0x3F] @ ''xyz''"

section \<open>The placeholder network\<close>

text \<open>
  \<^verbatim>\<open>SimplifiedYOLOFastest.__init__\<close> stores the input size and builds a fixed stack:
  \<^verbatim>\<open>Conv2d(3, 64, 3, padding=1)\<close>, \<^verbatim>\<open>BatchNorm2d(64)\<close>, \<^verbatim>\<open>ReLU(inplace=True)\<close>,
  \<^verbatim>\<open>MaxPool2d(2, 2)\<close> and the head \<^verbatim>\<open>Conv2d(64, 255, 1)\<close>. A layer is recorded by its
  constructor arguments (in channels, out channels, kernel size and padding for a
  convolution).
\<close>

datatype layer =
    Conv2d nat nat nat nat
  | BatchNorm2d nat
  | ReLU bool
  | MaxPool2d nat nat

record SimplifiedYOLOFastest =
  input_size :: int
  backbone :: "layer list"
  head :: layer

definition SimplifiedYOLOFastest_init :: "int \<Rightarrow> SimplifiedYOLOFastest" where
  "SimplifiedYOLOFastest_init n =
     \<lparr>input_size = n,
      backbone = [Conv2d 3 64 3 1, BatchNorm2d 64, ReLU True, MaxPool2d 2 2],
      head = Conv2d 64 255 1 0\<rparr>"

text \<open>
  \<^verbatim>\<open>int(s)\<close> on a string: surrounding whitespace is dropped, one sign is allowed, and
  the rest must be decimal digits, with single underscores allowed between digits;
  anything else raises \<^verbatim>\<open>ValueError\<close>. The interpreter's optional limit on the number
  of digits is not modelled.
\<close>

definition is_digit :: "char \<Rightarrow> bool" where
  "is_digit c = (48 \<le> (of_char c :: nat) \<and> (of_char c :: nat) \<le> 57)"

fun parse_digits :: "string \<Rightarrow> nat \<Rightarrow> nat option" where
  "parse_digits [] acc = Some acc"
| "parse_digits (c # cs) acc =
     (if is_digit c then parse_digits cs (10 * acc + (of_char c - 48))
      else if c = CHR ''_'' \<and> cs \<noteq> [] \<and> is_digit (hd cs) then parse_digits cs acc
      else None)"

definition py_int :: "string \<Rightarrow> int result" where
  "py_int s =
     (let t = py_strip s;
          negative = startswith t ''-'';
          body = (if startswith t ''-'' \<or> startswith t ''+'' then tl t else t)
      in if body = [] \<or> \<not> is_digit (hd body) then Inl ValueError
         else (case parse_digits body 0 of
                 None \<Rightarrow> Inl ValueError
               | Some n \<Rightarrow> Inr (if negative then - int n else int n)))"

section \<open>Console, file system and library calls\<close>

text \<open>
  A script runs in a world: the files on disk, the directories created so far, the lines
  printed so far and the names of the third-party library functions called so far (both
  oldest first). A printed line
  is its template with the values formatted into it; sizes are kept in bytes where the
  scripts print megabytes. The paths that the scripts test, measure
  and open name regular files or nothing; a directory exists when it was created or
  when it holds a file. A statement of a script is a function from the world to a result, raised
  exception or value, and the next world; \<open>try_except\<close> is \<^verbatim>\<open>try: ... except Exception\<close>.
  The exceptions modelled are the instances of \<^verbatim>\<open>Exception\<close>.

  The third-party libraries (torch, onnx, onnxruntime, ultralytics, torchreid) are not
  part of the repository: every call into them is a parameter of the model, a function
  that may return or raise and may change the files in any way.
\<close>

datatype arg = S string | N nat | I int | B bool | E exn

datatype msg = Msg string "arg list"

record world =
  w_files :: fs
  w_dirs :: "path list"
  w_out :: "msg list"
  w_calls :: "string list"

type_synonym 'a prog = "world \<Rightarrow> 'a result \<times> world"

definition ret :: "'a \<Rightarrow> 'a prog" where
  "ret a w = (Inr a, w)"

definition raise :: "exn \<Rightarrow> 'a prog" where
  "raise e w = (Inl e, w)"

definition bind :: "'a prog \<Rightarrow> ('a \<Rightarrow> 'b prog) \<Rightarrow> 'b prog" where
  "bind m k w = (case m w of (Inl e, w') \<Rightarrow> (Inl e, w') | (Inr a, w') \<Rightarrow> k a w')"

definition seq :: "unit prog \<Rightarrow> 'b prog \<Rightarrow> 'b prog" where
  "seq m k = bind m (\<lambda>_. k)"

definition try_except :: "'a prog \<Rightarrow> (exn \<Rightarrow> 'a prog) \<Rightarrow> 'a prog" where
  "try_except m handler w = (case m w of (Inl e, w') \<Rightarrow> handler e w' | (Inr a, w') \<Rightarrow> (Inr a, w'))"

definition print :: "string \<Rightarrow> arg list \<Rightarrow> unit prog" where
  "print template args w = (Inr (), w\<lparr>w_out := w_out w @ [Msg template args]\<rparr>)"

definition lift :: "'a result \<Rightarrow> 'a prog" where
  "lift r w = (r, w)"

definition lib_call :: "string \<Rightarrow> (fs \<Rightarrow> 'a result \<times> fs) \<Rightarrow> 'a prog" where
  "lib_call fname f w =
     (case f (w_files w) of
        (r, files') \<Rightarrow> (r, w\<lparr>w_files := files', w_calls := w_calls w @ [fname]\<rparr>))"

definition path_join :: "path \<Rightarrow> path \<Rightarrow> path" where
  "path_join d r =
     (if startswith r ''/'' then r
      else if d = [] \<or> endswith d ''/'' then d @ r
      else d @ ''/'' @ r)"

definition basename :: "path \<Rightarrow> string" where
  "basename p = rev (takeWhile (\<lambda>c. c \<noteq> CHR ''/'') (rev p))"

definition path_exists :: "path \<Rightarrow> bool prog" where
  "path_exists p w = (Inr (map_of (w_files w) p \<noteq> None), w)"

definition getsize :: "path \<Rightarrow> nat prog" where
  "getsize p w =
     (case map_of (w_files w) p of
        None \<Rightarrow> (Inl (FileNotFoundError p), w)
      | Some content \<Rightarrow> (Inr (length content), w))"

definition seqs :: "unit prog list \<Rightarrow> 'a prog \<Rightarrow> 'a prog" where
  "seqs ms k = foldr seq ms k"

definition read_fs :: "(fs \<Rightarrow> 'a result) \<Rightarrow> 'a prog" where
  "read_fs f w = (f (w_files w), w)"

section \<open>The Darknet converter script\<close>

text \<open>
  \<^verbatim>\<open>convert_fastest_to_onnx.py\<close>: the table \<^verbatim>\<open>self.models\<close>, \<^verbatim>\<open>build_model_from_cfg\<close>,
  \<^verbatim>\<open>convert\<close> and \<^verbatim>\<open>convert_all\<close>. \<open>MODELS_DIR\<close> is the script's module constant, a
  directory derived from the script's own location. \<open>convert_try\<close> is the body of the
  \<^verbatim>\<open>try\<close> statement of \<^verbatim>\<open>convert\<close> and \<open>convert_except\<close> its handler. The random dummy
  input handed to the exporter and \<^verbatim>\<open>model.eval()\<close> have no effect on the world.
\<close>

record model_info =
  m_name :: string
  m_cfg :: path
  m_weights :: path
  m_output :: path

definition models :: "(string \<times> model_info) list" where
  "models =
     [(''1'', \<lparr>m_name = ''YOLO-Fastest-1.1'',
             m_cfg = ''yolo-fastest-1.1/yolo-fastest-1.1.cfg'',
             m_weights = ''yolo-fastest-1.1/yolo-fastest-1.1.weights'',
             m_output = ''yolo-fastest-1.1.onnx''\<rparr>),
      (''2'', \<lparr>m_name = ''YOLO-Fastest-XL'',
             m_cfg = ''yolo-fastest-1.1/yolo-fastest-1.1-xl.cfg'',
             m_weights = ''yolo-fastest-1.1/yolo-fastest-1.1-xl.weights'',
             m_output = ''yolo-fastest-xl.onnx''\<rparr>),
      (''3'', \<lparr>m_name = ''YOLO-Fastest-1.1-Body'',
             m_cfg = ''yolo-fastest-1.1_body/yolo-fastest-1.1_body.cfg'',
             m_weights = ''yolo-fastest-1.1_body/yolo-fastest-1.1_body.weights'',
             m_output = ''yolo-fastest-1.1-body.onnx''\<rparr>)]"

record torch_lib =
  torch_onnx_export :: "SimplifiedYOLOFastest \<Rightarrow> path \<Rightarrow> fs \<Rightarrow> unit result \<times> fs"
  onnx_load :: "path \<Rightarrow> fs \<Rightarrow> string result \<times> fs"
  onnx_check_model :: "string \<Rightarrow> fs \<Rightarrow> unit result \<times> fs"

definition build_model_from_cfg :: "block list \<Rightarrow> SimplifiedYOLOFastest prog" where
  "build_model_from_cfg blocks =
     (case blocks of
        [] \<Rightarrow> raise IndexError
      | net_info # _ \<Rightarrow>
          bind (lift (case map_of net_info ''width'' of None \<Rightarrow> Inr 320 | Some v \<Rightarrow> py_int v))
            (\<lambda>input_size.
               seqs [print ''Model input size: {}x{}'' [I input_size, I input_size]]
              (ret (SimplifiedYOLOFastest_init input_size))))"

definition convert_try :: "torch_lib \<Rightarrow> path \<Rightarrow> path \<Rightarrow> path \<Rightarrow> bool prog" where
  "convert_try lib cfg_path weights_path output_path =
     seqs [print ''Parsing config...'' []]
    (bind (read_fs (\<lambda>fs. parse_cfg fs cfg_path)) (\<lambda>blocks.
     seqs [print ''Loading weights...'' []]
    (bind (read_fs (\<lambda>fs. load_weights fs weights_path)) (\<lambda>weights.
     seqs [print ''Loaded {} weight values'' [N (length weights)],
           print ''Building PyTorch model...'' []]
    (bind (build_model_from_cfg blocks) (\<lambda>model.
     seqs [print ''Converting to ONNX...'' [],
           lib_call ''torch.onnx.export'' (torch_onnx_export lib model output_path),
           print ''Verifying ONNX model...'' []]
    (bind (lib_call ''onnx.load'' (onnx_load lib output_path)) (\<lambda>onnx_model.
     seqs [lib_call ''onnx.checker.check_model'' (onnx_check_model lib onnx_model),
           print ''Successfully converted to: {}'' [S (basename output_path)]]
    (bind (getsize output_path) (\<lambda>size.
     seqs [print ''Output size: {} bytes'' [N size]]
    (ret True)))))))))))"

definition convert_except :: "exn \<Rightarrow> bool prog" where
  "convert_except e =
     seqs [print ''Conversion failed: {}'' [E e],
           print ''Traceback: {}'' [E e]]
    (ret False)"

definition convert :: "torch_lib \<Rightarrow> path \<Rightarrow> string \<Rightarrow> bool prog" where
  "convert lib MODELS_DIR model_key =
     (case map_of models model_key of
        None \<Rightarrow> seqs [print ''Invalid model key: {}'' [S model_key]] (ret False)
      | Some model_info \<Rightarrow>
          (let cfg_path = path_join MODELS_DIR (m_cfg model_info);
               weights_path = path_join MODELS_DIR (m_weights model_info);
               output_path = path_join MODELS_DIR (m_output model_info)
           in seqs [print ''===='' [],
                    print ''Converting {}'' [S (m_name model_info)],
                    print ''===='' []]
             (bind (path_exists cfg_path) (\<lambda>cfg_exists.
                if \<not> cfg_exists then
                  seqs [print ''Config file not found: {}'' [S cfg_path]] (ret False)
                else
                  bind (path_exists weights_path) (\<lambda>weights_exists.
                    if \<not> weights_exists then
                      seqs [print ''Weights file not found: {}'' [S weights_path]] (ret False)
                    else
                      seqs [print ''Config: {}'' [S (basename cfg_path)]]
                     (bind (getsize weights_path) (\<lambda>size.
                      seqs [print ''Weights: {} ({} bytes)'' [S (basename weights_path), N size]]
                     (try_except (convert_try lib cfg_path weights_path output_path)
                        convert_except))))))))"




section \<open>The ONNX quantization script\<close>


function py_replace :: "string \<Rightarrow> string \<Rightarrow> string \<Rightarrow> string" where
  "py_replace old new s =
     (if old = [] \<or> s = [] then s
      else if startswith s old then new @ py_replace old new (drop (length old) s)
      else hd s # py_replace old new (tl s))"
  by pat_completeness auto
termination
  by (relation "measure (\<lambda>(old, new, s). length s)") auto

declare py_replace.simps [simp del]

definition listdir :: "path \<Rightarrow> fs \<Rightarrow> string list" where
  "listdir d fs =
     remdups (filter (\<lambda>n. CHR ''/'' \<notin> set n)
       (map (\<lambda>p. drop (length d + 1) p) (filter (\<lambda>p. startswith p (d @ ''/'')) (map fst fs))))"

definition remove_file :: "path \<Rightarrow> fs \<Rightarrow> fs" where
  "remove_file p fs = filter (\<lambda>entry. fst entry \<noteq> p) fs"

definition dir_exists :: "world \<Rightarrow> path \<Rightarrow> bool" where
  "dir_exists w d =
     (d \<in> set (w_dirs w) \<or> list_ex (\<lambda>p. startswith p (d @ ''/'')) (map fst (w_files w)))"

definition os_listdir :: "path \<Rightarrow> string list prog" where
  "os_listdir d w =
     (if dir_exists w d then (Inr (listdir d (w_files w)), w)
      else (Inl (FileNotFoundError d), w))"

definition makedirs :: "path \<Rightarrow> unit prog" where
  "makedirs d w =
     (if map_of (w_files w) d \<noteq> None then (Inl (FileExistsError d), w)
      else (Inr (), w\<lparr>w_dirs := List.insert d (w_dirs w)\<rparr>))"

definition shutil_move :: "path \<Rightarrow> path \<Rightarrow> unit prog" where
  "shutil_move src dst w =
     (case map_of (w_files w) src of
        None \<Rightarrow> (Inl (FileNotFoundError src), w)
      | Some content \<Rightarrow>
          (Inr (), if src = dst then w
                   else w\<lparr>w_files := AList.update dst content (remove_file src (w_files w))\<rparr>))"

record ort_lib =
  quantize_dynamic :: "path \<Rightarrow> path \<Rightarrow> fs \<Rightarrow> unit result \<times> fs"

definition quantize_try :: "ort_lib \<Rightarrow> path \<Rightarrow> path \<Rightarrow> nat \<Rightarrow> bool prog" where
  "quantize_try lib input_path output_path original_size =
     seqs [print ''Starting INT8 dynamic quantization...'' [],
           lib_call ''quantize_dynamic'' (quantize_dynamic lib input_path output_path)]
    (bind (getsize output_path) (\<lambda>quantized_size.
     seqs [lift (if quantized_size = 0 then Inl ZeroDivisionError else Inr ()),
           print ''Quantization succeeded: {}'' [S output_path],
           print ''Quantized size: {} bytes'' [N quantized_size],
           print ''Compression ratio: {}/{}'' [N original_size, N quantized_size]]
    (ret True)))"

definition quantize_except :: "exn \<Rightarrow> bool prog" where
  "quantize_except e =
     seqs [print ''Quantization failed: {}'' [E e],
           print ''Traceback: {}'' [E e]]
    (ret False)"

definition quantize_onnx_model :: "ort_lib \<Rightarrow> path \<Rightarrow> path \<Rightarrow> bool prog" where
  "quantize_onnx_model lib input_path output_path =
     seqs [print ''===='' [],
           print ''Input model: {}'' [S input_path]]
    (bind (path_exists input_path) (\<lambda>input_exists.
       if \<not> input_exists then
         seqs [print ''Model file does not exist: {}'' [S input_path]] (ret False)
       else
         bind (getsize input_path) (\<lambda>original_size.
         seqs [print ''Original size: {} bytes'' [N original_size]]
        (try_except (quantize_try lib input_path output_path original_size) quantize_except))))"





definition usage_hint :: "unit prog list" where
  "usage_hint =
     [print ''Usage:'' [],
      print ''   # use the INT8 quantized M model'' [],
      print ''   yolov8-rtsp.exe --int8 -m m'' [],
      print ''   '' [],
      print ''   # use the INT8 quantized N model (fastest)'' [],
      print ''   yolov8-rtsp.exe --int8 -m n'' []]"


section \<open>The INT8 export script\<close>

text \<open>
  \<^verbatim>\<open>export_int8_models.py\<close>: \<^verbatim>\<open>export_int8_model\<close> and \<^verbatim>\<open>main\<close>. The exported file is
  moved to the target only when it exists at the path the library returned.
\<close>

record yolo_lib =
  YOLO :: "path \<Rightarrow> fs \<Rightarrow> string result \<times> fs"
  YOLO_export :: "string \<Rightarrow> fs \<Rightarrow> path result \<times> fs"

definition export_try :: "yolo_lib \<Rightarrow> path \<Rightarrow> path \<Rightarrow> bool prog" where
  "export_try lib model_path output_dir =
     bind (lib_call ''YOLO'' (YOLO lib model_path)) (\<lambda>model.
     seqs [print ''Export arguments: format=onnx imgsz=320 int8=True dynamic=False simplify=True opset=12'' [],
           print ''Starting INT8 quantized ONNX export...'' []]
    (bind (lib_call ''model.export'' (YOLO_export lib model)) (\<lambda>exported_path.
     seqs [print ''Export succeeded: {}'' [S exported_path]]
    (let base_name = py_replace ''.pt'' '''' (basename model_path);
         target_path = path_join output_dir (base_name @ ''_int8.onnx'')
     in bind (path_exists exported_path) (\<lambda>exported_exists.
          if exported_exists then
            seqs [makedirs output_dir,
                  shutil_move exported_path target_path,
                  print ''Saved to: {}'' [S target_path]]
           (bind (getsize target_path) (\<lambda>size.
            seqs [print ''Model size: {} bytes'' [N size]]
           (ret True)))
          else ret True)))))"

definition export_except :: "exn \<Rightarrow> bool prog" where
  "export_except e = seqs [print ''Export failed: {}'' [E e]] (ret False)"

definition export_int8_model :: "yolo_lib \<Rightarrow> path \<Rightarrow> path \<Rightarrow> bool prog" where
  "export_int8_model lib model_path output_dir =
     seqs [print ''===='' [],
           print ''Loading model: {}'' [S model_path]]
    (bind (path_exists model_path) (\<lambda>model_exists.
       if \<not> model_exists then
         seqs [print ''Model file does not exist: {}'' [S model_path],
               print ''Please download the model first: https://github.com/ultralytics/assets/releases'' []]
        (ret False)
       else try_except (export_try lib model_path output_dir) export_except))"




section \<open>The OSNet export script\<close>




section \<open>Auxiliary notions and example worlds\<close>

text \<open>
  What \<^verbatim>\<open>int(net_info.get('width', 320))\<close> makes of a block, and small libraries and
  worlds on which the scripts are run below: a library that behaves, and libraries
  whose export or quantization call raises or leaves no file behind.
\<close>

definition width_of :: "block \<Rightarrow> int result" where
  "width_of net_info = (case map_of net_info ''width'' of None \<Rightarrow> Inr 320 | Some v \<Rightarrow> py_int v)"

definition world0 :: world where
  "world0 = \<lparr>w_files = [], w_dirs = [], w_out = [], w_calls = []\<rparr>"

definition good_torch_lib :: torch_lib where
  "good_torch_lib =
     \<lparr>torch_onnx_export = (\<lambda>model p fs. (Inr (), AList.update p ''onnx'' fs)),
      onnx_load = (\<lambda>p fs. (fs_open fs p, fs)),
      onnx_check_model = (\<lambda>onnx_model fs. (Inr (), fs))\<rparr>"


definition good_ort_lib :: ort_lib where
  "good_ort_lib = \<lparr>quantize_dynamic = (\<lambda>i p fs. (Inr (), AList.update p ''int8'' fs))\<rparr>"


definition good_yolo_lib :: yolo_lib where
  "good_yolo_lib =
     \<lparr>YOLO = (\<lambda>p fs. (Inr p, fs)),
      YOLO_export = (\<lambda>model fs. (Inr ''exported.onnx'', AList.update ''exported.onnx'' ''int8'' fs))\<rparr>"

definition lazy_yolo_lib :: yolo_lib where
  "lazy_yolo_lib = good_yolo_lib\<lparr>YOLO_export := (\<lambda>model fs. (Inr ''exported.onnx'', fs))\<rparr>"



definition world_xl :: world where
  "world_xl =
     \<lparr>w_files =
        [(''models/yolo-fastest-1.1/yolo-fastest-1.1-xl.cfg'', example_cfg),
         (''models/yolo-fastest-1.1/yolo-fastest-1.1-xl.weights'', example_weights)],
      w_dirs = [], w_out = [], w_calls = []\<rparr>"

definition world_pt :: world where
  "world_pt = \<lparr>w_files = [(''yolov8n.pt'', ''checkpoint'')], w_dirs = [], w_out = [], w_calls = []\<rparr>"

definition world_onnx :: world where
  "world_onnx = \<lparr>w_files = [(''models/a.onnx'', ''fp32'')], w_dirs = [], w_out = [], w_calls = []\<rparr>"

definition world_cfg_only :: world where
  "world_cfg_only =
     \<lparr>w_files = [(''models/yolo-fastest-1.1/yolo-fastest-1.1.cfg'', example_cfg)],
      w_dirs = [], w_out = [], w_calls = []\<rparr>"

section \<open>Notions for the runs of the scripts\<close>


definition grows :: "'a prog \<Rightarrow> bool" where
  "grows m = (\<forall>w. prefix (w_out w) (w_out (snd (m w))))"





section \<open>Properties of the config reader\<close>

lemma py_split_none: "count_list l c = 0 \<Longrightarrow> py_split c l = [l]"
  by (induction l) (auto split: if_splits)

lemma py_split_one:
  "count_list l c = 1 \<Longrightarrow> py_split c l = [takeWhile (\<lambda>x. x \<noteq> c) l, drop 1 (dropWhile (\<lambda>x. x \<noteq> c) l)]"
  by (induction l) (auto simp: py_split_none split: if_splits)

lemma length_py_split: "length (py_split c l) = Suc (count_list l c)"
  by (induction l) (auto split: list.splits)

lemma slice_1_m1_butlast_tl: "slice_1_m1 s = butlast (tl s)"
  by (simp add: slice_1_m1_def butlast_conv_take drop_Suc numeral_2_eq_2)

lemma foldl_record_line_nonempty: "b \<noteq> [] \<Longrightarrow> foldl record_line b ls \<noteq> []"
  by (induction ls arbitrary: b) (simp_all add: record_line_def)

lemma foldl_record_line_empty: "foldl record_line [] ls = [] \<longleftrightarrow> ls = []"
  by (cases ls) (simp_all add: foldl_record_line_nonempty record_line_def)

lemma blocks_from_Nil: "blocks_from b [] = (if b = [] then [] else [b])"
  by (simp add: blocks_from_def)

lemma blocks_from_header:
  "is_header h \<Longrightarrow>
   blocks_from b (h # ls) = (if b = [] then [] else [b]) @ blocks_from [(''type'', header_text h)] ls"
  by (simp add: blocks_from_def block_of_section_def foldl_record_line_nonempty Let_def)

lemma blocks_from_keyval:
  "\<not> is_header l \<Longrightarrow> blocks_from b (l # ls) = blocks_from (record_line b l) ls"
  by (simp add: blocks_from_def)

lemma blocks_from_empty: "blocks_from [] ls = spec_blocks ls"
  by (simp add: blocks_from_def spec_blocks_def all_sections_def Let_def
      foldl_record_line_empty block_of_section_def split_def comp_def)

lemma parse_cfg_loop_blocks:
  "list_all wf_line (cfg_lines raws) \<Longrightarrow>
   \<exists>st. parse_cfg_loop raws (blocks, block) = Inr st \<and>
        finish st = blocks @ blocks_from block (cfg_lines raws)"
proof (induction raws arbitrary: blocks block)
  case Nil
  show ?case by (simp add: finish_def cfg_lines_def blocks_from_Nil)
next
  case (Cons raw rest)
  let ?line = "py_strip raw"
  consider (skip) "?line = [] \<or> startswith ?line ''#''"
    | (header) "\<not> (?line = [] \<or> startswith ?line ''#'')" "is_header ?line"
    | (keyval) "\<not> (?line = [] \<or> startswith ?line ''#'')" "\<not> is_header ?line"
    by blast
  then show ?case
  proof cases
    case skip
    then have "cfg_lines (raw # rest) = cfg_lines rest"
      by (auto simp: cfg_lines_def)
    with Cons skip show ?thesis by simp
  next
    case header
    then have eq: "cfg_lines (raw # rest) = ?line # cfg_lines rest"
      by (auto simp: cfg_lines_def)
    with Cons.prems have wf: "list_all wf_line (cfg_lines rest)" by simp
    from Cons.IH [OF wf, of "if block \<noteq> [] then blocks @ [block] else blocks" "[(''type'', header_text ?line)]"]
    show ?thesis using header
      by (cases "block = []")
        (simp_all add: eq blocks_from_header is_header_def header_text_def slice_1_m1_butlast_tl)
  next
    case keyval
    then have eq: "cfg_lines (raw # rest) = ?line # cfg_lines rest"
      by (auto simp: cfg_lines_def)
    with Cons.prems have wf: "list_all wf_line (cfg_lines rest)" and wl: "wf_line ?line"
      by simp_all
    from wl keyval have one: "count_list ?line (CHR ''='') = 1"
      by (simp add: wf_line_def)
    from Cons.IH [OF wf, of blocks "record_line block ?line"]
    show ?thesis using keyval
      by (simp add: eq blocks_from_keyval is_header_def py_split_one [OF one] record_line_def key_of_def value_of_def Let_def)
  qed
qed

lemma parse_cfg_lines_blocks:
  "wf_cfg raws \<Longrightarrow> parse_cfg_lines raws = Inr (spec_blocks (cfg_lines raws))"
  using parse_cfg_loop_blocks [of raws "[]" "[]"]
  by (auto simp: wf_cfg_def parse_cfg_lines_def finish_def blocks_from_empty split: if_splits)

lemma py_split_not_two:
  "count_list l c \<noteq> 1 \<Longrightarrow> (case py_split c l of [k, v] \<Rightarrow> f k v | _ \<Rightarrow> d) = d"
  using length_py_split [of c l] by (auto split: list.splits)

lemma parse_cfg_loop_returns:
  "(\<exists>st'. parse_cfg_loop raws st = Inr st') \<longleftrightarrow> keyval_ok raws"
proof (induction raws arbitrary: st)
  case Nil
  show ?case by (simp add: keyval_ok_def cfg_lines_def)
next
  case (Cons raw rest)
  obtain blocks block where st: "st = (blocks, block)" by (cases st)
  let ?line = "py_strip raw"
  consider (skip) "?line = [] \<or> startswith ?line ''#''"
    | (header) "\<not> (?line = [] \<or> startswith ?line ''#'')" "is_header ?line"
    | (keyval) "\<not> (?line = [] \<or> startswith ?line ''#'')" "\<not> is_header ?line" "count_list ?line (CHR ''='') = 1"
    | (bad) "\<not> (?line = [] \<or> startswith ?line ''#'')" "\<not> is_header ?line" "count_list ?line (CHR ''='') \<noteq> 1"
    by blast
  then show ?case
  proof cases
    case skip
    then have "keyval_ok (raw # rest) = keyval_ok rest"
      by (auto simp: keyval_ok_def cfg_lines_def)
    with Cons skip show ?thesis by (simp add: st)
  next
    case header
    then have "keyval_ok (raw # rest) = keyval_ok rest"
      by (auto simp: keyval_ok_def cfg_lines_def)
    with Cons header show ?thesis by (simp add: st is_header_def)
  next
    case keyval
    then have "keyval_ok (raw # rest) = keyval_ok rest"
      by (auto simp: keyval_ok_def cfg_lines_def)
    with Cons keyval show ?thesis
      by (simp add: st is_header_def py_split_one Let_def)
  next
    case bad
    then have "\<not> keyval_ok (raw # rest)"
      by (auto simp: keyval_ok_def cfg_lines_def)
    with bad show ?thesis
      by (simp add: st is_header_def py_split_not_two Let_def)
  qed
qed

lemma parse_cfg_loop_raises: "parse_cfg_loop raws st = Inl e \<Longrightarrow> e = ValueError"
proof (induction raws st rule: parse_cfg_loop.induct)
  case (1 st)
  then show ?case by simp
next
  case (2 raw rest blocks block)
  then show ?case
    by (auto simp: Let_def split: if_splits list.splits)
qed

lemma parse_cfg_lines_returns:
  "(\<exists>bs. parse_cfg_lines raws = Inr bs) \<longleftrightarrow> keyval_ok raws"
  using parse_cfg_loop_returns [of raws "([], [])"]
  by (auto simp: parse_cfg_lines_def split: sum.splits)

lemma parse_cfg_lines_raises:
  "\<not> keyval_ok raws \<Longrightarrow> parse_cfg_lines raws = Inl ValueError"
  using parse_cfg_loop_returns [of raws "([], [])"] parse_cfg_loop_raises [of raws "([], [])"]
  by (auto simp: parse_cfg_lines_def split: sum.splits)

lemma map_of_foldl_record_line:
  "map_of (foldl record_line b ls) k =
     (case filter (\<lambda>l. key_of l = k) ls of
        [] \<Rightarrow> map_of b k
      | m # ms \<Rightarrow> Some (value_of (last (m # ms))))"
proof (induction ls rule: rev_induct)
  case Nil
  show ?case by simp
next
  case (snoc l ls)
  then show ?case
    by (auto simp: record_line_def update_conv' split: list.splits)
qed

lemma map_of_block_of_section: "map_of (block_of_section sec) k = final_binding sec k"
  by (cases sec) (auto simp: block_of_section_def final_binding_def map_of_foldl_record_line
      split: list.splits option.splits)

lemma map_of_spec_blocks:
  "list_all2 (\<lambda>b sec. \<forall>k. map_of b k = final_binding sec k) (spec_blocks ls) (all_sections ls)"
  by (simp add: spec_blocks_def list_all2_map1 list_all2_same map_of_block_of_section)

lemma parse_cfg_opened:
  "fs_open files cfg_file = Inr content \<Longrightarrow> parse_cfg files cfg_file = parse_cfg_lines (readlines content)"
  by (simp add: parse_cfg_def)

lemma example_cfg_lines:
  "cfg_lines (readlines example_cfg) =
     [''[net]'', ''width = 320'', ''[ convolutional ]'', ''filters=8'', ''filters = 16'']"
  by (simp add: example_cfg_def readlines_def cfg_lines_def py_strip_def py_isspace_def
      startswith_def)

lemma example_cfg_wf: "wf_cfg (readlines example_cfg)"
  by (simp add: wf_cfg_def example_cfg_lines wf_line_def is_header_def startswith_def
      endswith_def)

lemma example_cfg_sections:
  "all_sections (cfg_lines (readlines example_cfg)) =
     [(Some ''[net]'', [''width = 320'']),
      (Some ''[ convolutional ]'', [''filters=8'', ''filters = 16''])]"
  by (simp add: example_cfg_lines all_sections_def is_header_def startswith_def)

text \<open>
  C1. For a config file whose header lines and key=value lines are well-formed,
  \<open>parse_cfg\<close> returns the blocks of the specification's reading, in file order: blank
  lines and lines starting with \<open>#\<close> are skipped, every line starting with an opening
  bracket starts a new block holding the stripped header text under \<open>type\<close>, and every
  following key = value line is recorded in the current block with key and value
  stripped. Lines before the first header go to a block of their own without \<open>type\<close>.
\<close>

theorem parse_cfg_blocks_in_file_order:
  assumes "fs_open files cfg_file = Inr content"
    and "wf_cfg (readlines content)"
  shows "parse_cfg files cfg_file = Inr (spec_blocks (cfg_lines (readlines content)))"
  using assms by (simp add: parse_cfg_opened parse_cfg_lines_blocks)

theorem parse_cfg_blocks_in_file_order_witness:
  "fs_open [(''m.cfg'', example_cfg)] ''m.cfg'' = Inr example_cfg \<and>
   wf_cfg (readlines example_cfg) \<and>
   parse_cfg [(''m.cfg'', example_cfg)] ''m.cfg'' =
     Inr [[(''type'', ''net''), (''width'', ''320'')],
          [(''type'', ''convolutional''), (''filters'', ''16'')]]"
proof -
  have o: "fs_open [(''m.cfg'', example_cfg)] ''m.cfg'' = Inr example_cfg"
    by (simp add: fs_open_def)
  have "spec_blocks (cfg_lines (readlines example_cfg)) =
     [[(''type'', ''net''), (''width'', ''320'')],
      [(''type'', ''convolutional''), (''filters'', ''16'')]]"
    by (simp add: spec_blocks_def example_cfg_sections block_of_section_def record_line_def
        key_of_def value_of_def header_text_def py_strip_def py_isspace_def)
  with parse_cfg_blocks_in_file_order [OF o example_cfg_wf] o example_cfg_wf
  show ?thesis by simp
qed

text \<open>
  C2, as the specification states it, fails: a line that is neither blank, a comment
  nor a header and that holds no equals sign makes \<open>parse_cfg\<close> raise \<open>ValueError\<close>,
  although every header of the file is a bracketed line.
\<close>

theorem parse_cfg_raises_on_line_without_equals:
  "parse_cfg [(''m.cfg'', bad_cfg)] ''m.cfg'' = Inl ValueError"
  by (simp add: parse_cfg_def fs_open_def parse_cfg_lines_def bad_cfg_def readlines_def
      py_strip_def py_isspace_def startswith_def)

text \<open>
  C2, amended. \<open>parse_cfg\<close> returns a block list exactly when every line that is
  neither blank, a comment nor a header holds exactly one equals sign, and raises
  \<open>ValueError\<close> otherwise; nothing else about names, values or header lines is checked.
\<close>

theorem parse_cfg_returns_iff_one_equals_sign:
  assumes "fs_open files cfg_file = Inr content"
  shows "((\<exists>bs. parse_cfg files cfg_file = Inr bs) \<longleftrightarrow> keyval_ok (readlines content)) \<and>
         (\<not> keyval_ok (readlines content) \<longrightarrow> parse_cfg files cfg_file = Inl ValueError)"
  using assms by (simp add: parse_cfg_opened parse_cfg_lines_returns parse_cfg_lines_raises)

theorem parse_cfg_returns_iff_one_equals_sign_witness:
  "fs_open [(''m.cfg'', odd_cfg)] ''m.cfg'' = Inr odd_cfg \<and>
   keyval_ok (readlines odd_cfg) \<and>
   (\<exists>bs. parse_cfg [(''m.cfg'', odd_cfg)] ''m.cfg'' = Inr bs)"
proof -
  have o: "fs_open [(''m.cfg'', odd_cfg)] ''m.cfg'' = Inr odd_cfg"
    by (simp add: fs_open_def)
  have k: "keyval_ok (readlines odd_cfg)"
    by (simp add: keyval_ok_def odd_cfg_def readlines_def cfg_lines_def py_strip_def
        py_isspace_def startswith_def is_header_def)
  from parse_cfg_returns_iff_one_equals_sign [OF o] o k show ?thesis by simp
qed

text \<open>
  C10. For a well-formed config file, each returned block binds every key to the
  stripped value of the last key = value line with that key in the block's section;
  the key \<open>type\<close> is bound to the header text when no line of the section sets it.
\<close>

theorem parse_cfg_last_value_wins:
  assumes "fs_open files cfg_file = Inr content"
    and "wf_cfg (readlines content)"
  shows "\<exists>bs. parse_cfg files cfg_file = Inr bs \<and>
           list_all2 (\<lambda>b sec. \<forall>k. map_of b k = final_binding sec k)
             bs (all_sections (cfg_lines (readlines content)))"
  using assms by (simp add: parse_cfg_opened parse_cfg_lines_blocks map_of_spec_blocks)

theorem parse_cfg_last_value_wins_witness:
  "fs_open [(''m.cfg'', example_cfg)] ''m.cfg'' = Inr example_cfg \<and>
   wf_cfg (readlines example_cfg) \<and>
   (\<exists>bs. parse_cfg [(''m.cfg'', example_cfg)] ''m.cfg'' = Inr bs \<and>
      list_all2 (\<lambda>b sec. \<forall>k. map_of b k = final_binding sec k) bs
        [(Some ''[net]'', [''width = 320'']),
         (Some ''[ convolutional ]'', [''filters=8'', ''filters = 16''])])"
proof -
  have o: "fs_open [(''m.cfg'', example_cfg)] ''m.cfg'' = Inr example_cfg"
    by (simp add: fs_open_def)
  from parse_cfg_last_value_wins [OF o example_cfg_wf] o example_cfg_wf
  show ?thesis by (simp add: example_cfg_sections)
qed

section \<open>Properties of the weights reader\<close>

declare chunks.simps [simp del]

lemma chunks_length: "n > 0 \<Longrightarrow> length (chunks n xs) = length xs div n"
proof (induction n xs rule: chunks.induct)
  case (1 n xs)
  show ?case
  proof (cases "length xs < n")
    case True
    then show ?thesis by (simp add: chunks.simps)
  next
    case False
    with 1 have "length (chunks n (drop n xs)) = (length xs - n) div n" by simp
    with False 1 show ?thesis
      by (subst chunks.simps) (simp add: le_div_geq)
  qed
qed


lemma chunks_take_whole: "n > 0 \<Longrightarrow> chunks n (take (length xs div n * n) xs) = chunks n xs"
proof (induction n xs rule: chunks.induct)
  case (1 n xs)
  show ?case
  proof (cases "length xs < n")
    case True
    then show ?thesis by (simp add: chunks.simps)
  next
    case False
    then have d: "length xs div n * n = n + (length xs - n) div n * n"
      using 1 by (simp add: le_div_geq)
    have le: "n + (length xs - n) div n * n \<le> length xs"
      using False d by (metis div_times_less_eq_dividend)
    have ih: "chunks n (take ((length xs - n) div n * n) (drop n xs)) = chunks n (drop n xs)"
      using 1 False by simp
    have t: "take n (take (n + (length xs - n) div n * n) xs) = take n xs"
      by (simp add: min_def)
    have dr: "drop n (take (n + (length xs - n) div n * n) xs) = take ((length xs - n) div n * n) (drop n xs)"
      by (simp add: drop_take)
    have len: "\<not> length (take (n + (length xs - n) div n * n) xs) < n"
      using le False by simp
    show ?thesis
      using 1(2) False len
      by (subst chunks.simps, subst (2) chunks.simps) (simp add: d t dr ih del: length_take)
  qed
qed








lemma drop_min_20: "drop (min 20 (length xs)) xs = drop 20 xs"
  by (cases "20 \<le> length xs") (simp_all add: min_def)

lemma load_weights_read_weights:
  "snd (load_weights_read content) = map float32_of (chunks 4 (drop 20 content))"
proof -
  have "chunks 4 (take ((length content - min 20 (length content)) div 4 * 4) (drop (min 20 (length content)) content))
      = chunks 4 (drop 20 content)"
    using chunks_take_whole [of 4 "drop 20 content"] by (simp add: drop_min_20 min_def)
  then show ?thesis
    by (simp add: load_weights_read_def np_fromfile_def Let_def)
qed





section \<open>Properties of the drivers\<close>

lemma seqs_Nil: "seqs [] k = k"
  by (simp add: seqs_def)

lemma seqs_Cons: "seqs (m # ms) k = seq m (seqs ms k)"
  by (simp add: seqs_def)

lemma seq_print: "seq (print t a) k w = k (w\<lparr>w_out := w_out w @ [Msg t a]\<rparr>)"
  by (simp add: seq_def bind_def print_def)

lemma bind_ret: "bind (ret a) k w = k a w"
  by (simp add: bind_def ret_def)

lemma bind_raise: "bind (raise e) k w = (Inl e, w)"
  by (simp add: bind_def raise_def)

lemma bind_path_exists: "bind (path_exists p) k w = k (map_of (w_files w) p \<noteq> None) w"
  by (simp add: bind_def path_exists_def)

lemma bind_getsize:
  "bind (getsize p) k w =
     (case map_of (w_files w) p of
        None \<Rightarrow> (Inl (FileNotFoundError p), w)
      | Some content \<Rightarrow> k (length content) w)"
  by (simp add: bind_def getsize_def split: option.splits)

lemma bind_lift: "bind (lift r) k w = (case r of Inl e \<Rightarrow> (Inl e, w) | Inr a \<Rightarrow> k a w)"
  by (simp add: bind_def lift_def split: sum.splits)

lemma bind_read_fs:
  "bind (read_fs f) k w = (case f (w_files w) of Inl e \<Rightarrow> (Inl e, w) | Inr a \<Rightarrow> k a w)"
  by (simp add: bind_def read_fs_def split: sum.splits)

lemma bind_lib_call:
  "bind (lib_call n f) k w =
     (case f (w_files w) of
        (Inl e, fs') \<Rightarrow> (Inl e, w\<lparr>w_files := fs', w_calls := w_calls w @ [n]\<rparr>)
      | (Inr a, fs') \<Rightarrow> k a (w\<lparr>w_files := fs', w_calls := w_calls w @ [n]\<rparr>))"
  by (simp add: bind_def lib_call_def split: prod.splits sum.splits)

lemma seq_lib_call:
  "seq (lib_call n f) k w =
     (case f (w_files w) of
        (Inl e, fs') \<Rightarrow> (Inl e, w\<lparr>w_files := fs', w_calls := w_calls w @ [n]\<rparr>)
      | (Inr a, fs') \<Rightarrow> k (w\<lparr>w_files := fs', w_calls := w_calls w @ [n]\<rparr>))"
  by (simp add: seq_def bind_lib_call)

lemma seq_lift: "seq (lift r) k w = (case r of Inl e \<Rightarrow> (Inl e, w) | Inr a \<Rightarrow> k w)"
  by (simp add: seq_def bind_lift)

lemma seq_makedirs:
  "seq (makedirs d) k w =
     (if map_of (w_files w) d \<noteq> None then (Inl (FileExistsError d), w)
      else k (w\<lparr>w_dirs := List.insert d (w_dirs w)\<rparr>))"
  by (simp add: seq_def bind_def makedirs_def)

lemma bind_os_listdir:
  "bind (os_listdir d) k w =
     (if dir_exists w d then k (listdir d (w_files w)) w else (Inl (FileNotFoundError d), w))"
  by (simp add: bind_def os_listdir_def)

lemma seq_shutil_move:
  "seq (shutil_move src dst) k w =
     (case map_of (w_files w) src of
        None \<Rightarrow> (Inl (FileNotFoundError src), w)
      | Some content \<Rightarrow>
          k (if src = dst then w
             else w\<lparr>w_files := AList.update dst content (remove_file src (w_files w))\<rparr>))"
  by (simp add: seq_def bind_def shutil_move_def split: option.splits)

lemmas prog_simps =
  seqs_Nil seqs_Cons seq_print bind_ret bind_raise bind_path_exists bind_getsize bind_lift
  bind_read_fs bind_lib_call seq_lib_call seq_lift seq_makedirs seq_shutil_move
  bind_os_listdir



lemma try_except_True:
  assumes "\<And>e w1. fst (h e w1) = Inr False"
    and "try_except m h w = (Inr True, w')"
  shows "m w = (Inr True, w')"
proof (cases "m w")
  case (Pair r w1)
  show ?thesis
  proof (cases r)
    case (Inl e)
    with Pair assms(2) have "h e w1 = (Inr True, w')" by (simp add: try_except_def)
    with assms(1) [of e w1] show ?thesis by simp
  next
    case (Inr b)
    with Pair assms(2) show ?thesis by (simp add: try_except_def)
  qed
qed


lemma build_model_from_cfg_Nil: "build_model_from_cfg [] w = (Inl IndexError, w)"
  by (simp add: build_model_from_cfg_def raise_def)

lemma build_model_from_cfg_Cons:
  "build_model_from_cfg (net_info # rest) w =
     (case width_of net_info of
        Inl e \<Rightarrow> (Inl e, w)
      | Inr n \<Rightarrow> (Inr (SimplifiedYOLOFastest_init n),
                  w\<lparr>w_out := w_out w @ [Msg ''Model input size: {}x{}'' [I n, I n]]\<rparr>))"
  by (simp add: build_model_from_cfg_def width_of_def prog_simps ret_def split: sum.splits option.splits)

lemma bind_build_model_from_cfg:
  "bind (build_model_from_cfg blocks) k w =
     (case blocks of
        [] \<Rightarrow> (Inl IndexError, w)
      | net_info # rest \<Rightarrow>
          (case width_of net_info of
             Inl e \<Rightarrow> (Inl e, w)
           | Inr n \<Rightarrow> k (SimplifiedYOLOFastest_init n)
                        (w\<lparr>w_out := w_out w @ [Msg ''Model input size: {}x{}'' [I n, I n]]\<rparr>)))"
  by (simp add: bind_def build_model_from_cfg_Nil build_model_from_cfg_Cons
      split: list.splits sum.splits)

lemma convert_except_eq:
  "convert_except e w =
     (Inr False, w\<lparr>w_out := w_out w @ [Msg ''Conversion failed: {}'' [E e], Msg ''Traceback: {}'' [E e]]\<rparr>)"
  by (simp add: convert_except_def prog_simps ret_def)

lemma quantize_except_eq:
  "quantize_except e w =
     (Inr False, w\<lparr>w_out := w_out w @ [Msg ''Quantization failed: {}'' [E e], Msg ''Traceback: {}'' [E e]]\<rparr>)"
  by (simp add: quantize_except_def prog_simps ret_def)

lemma export_except_eq:
  "export_except e w = (Inr False, w\<lparr>w_out := w_out w @ [Msg ''Export failed: {}'' [E e]]\<rparr>)"
  by (simp add: export_except_def prog_simps ret_def)







lemma convert_try_True:
  assumes "convert_try lib cfg_path weights_path output_path w = (Inr True, w')"
  shows "map_of (w_files w') output_path \<noteq> None"
  using assms
  by (auto simp: convert_try_def prog_simps bind_build_model_from_cfg ret_def
      split: sum.splits prod.splits list.splits option.splits)

lemma quantize_try_True:
  assumes "quantize_try lib input_path output_path n w = (Inr True, w')"
  shows "\<exists>c. map_of (w_files w') output_path = Some c \<and> c \<noteq> []"
  using assms
  by (auto simp: quantize_try_def prog_simps ret_def
      split: sum.splits prod.splits option.splits if_splits)

lemma map_of_moved:
  "map_of (AList.update dst content (remove_file src fs)) dst = Some content"
  by (simp add: update_conv')

lemma export_try_True:
  assumes "export_try lib model_path output_dir w = (Inr True, w')"
  shows "\<exists>m fs1 ep fs2.
           YOLO lib model_path (w_files w) = (Inr m, fs1) \<and>
           YOLO_export lib m fs1 = (Inr ep, fs2) \<and>
           (case map_of fs2 ep of
              None \<Rightarrow> w_files w' = fs2
            | Some c \<Rightarrow>
                map_of (w_files w')
                  (path_join output_dir (py_replace ''.pt'' '''' (basename model_path) @ ''_int8.onnx'')) = Some c)"
  using assms
  by (auto simp: export_try_def prog_simps ret_def Let_def map_of_moved
      split: sum.splits prod.splits option.splits if_splits)

lemma models_1:
  "map_of models ''1'' = Some \<lparr>m_name = ''YOLO-Fastest-1.1'',
             m_cfg = ''yolo-fastest-1.1/yolo-fastest-1.1.cfg'',
             m_weights = ''yolo-fastest-1.1/yolo-fastest-1.1.weights'',
             m_output = ''yolo-fastest-1.1.onnx''\<rparr>"
  by (simp add: models_def)

lemma models_2:
  "map_of models ''2'' = Some \<lparr>m_name = ''YOLO-Fastest-XL'',
             m_cfg = ''yolo-fastest-1.1/yolo-fastest-1.1-xl.cfg'',
             m_weights = ''yolo-fastest-1.1/yolo-fastest-1.1-xl.weights'',
             m_output = ''yolo-fastest-xl.onnx''\<rparr>"
  by (simp add: models_def)


lemma path_join_models: "path_join ''models'' (c # cs) = (if c = CHR ''/'' then c # cs else ''models/'' @ c # cs)"
  by (simp add: path_join_def startswith_def endswith_def)

lemma example_cfg_parsed:
  "parse_cfg_lines (readlines example_cfg) =
     Inr [[(''type'', ''net''), (''width'', ''320'')],
          [(''type'', ''convolutional''), (''filters'', ''16'')]]"
  by (simp add: parse_cfg_lines_blocks [OF example_cfg_wf] spec_blocks_def example_cfg_sections
      block_of_section_def record_line_def key_of_def value_of_def header_text_def py_strip_def
      py_isspace_def)

lemma width_of_example: "width_of [(''type'', ''net''), (''width'', ''320'')] = Inr 320"
  by (simp add: width_of_def py_int_def py_strip_def py_isspace_def startswith_def is_digit_def)

lemma convert_good_xl:
  "fst (convert good_torch_lib ''models'' ''2'' world_xl) = Inr True"
  by (simp add: convert_def models_2 world_xl_def path_join_models prog_simps Let_def
      try_except_def convert_try_def parse_cfg_def fs_open_def example_cfg_parsed load_weights_def
      bind_build_model_from_cfg width_of_example good_torch_lib_def ret_def)

lemma quantize_good_a:
  "fst (quantize_onnx_model good_ort_lib ''models/a.onnx'' ''models/a_int8.onnx'' world_onnx) = Inr True"
  by (simp add: quantize_onnx_model_def quantize_try_def try_except_def good_ort_lib_def
      world_onnx_def prog_simps ret_def)

lemma target_yolov8n:
  "path_join ''models'' (py_replace ''.pt'' '''' (basename ''yolov8n.pt'') @ ''_int8.onnx'') =
     ''models/yolov8n_int8.onnx''"
proof -
  have "py_replace ''.pt'' '''' ''yolov8n.pt'' = ''yolov8n''"
    by code_simp
  then show ?thesis
    by (simp add: path_join_def basename_def startswith_def endswith_def)
qed

lemma export_good_n:
  "fst (export_int8_model good_yolo_lib ''yolov8n.pt'' ''models'' world_pt) = Inr True"
  by (simp add: export_int8_model_def export_try_def try_except_def good_yolo_lib_def
      world_pt_def prog_simps ret_def Let_def target_yolov8n map_of_moved)

lemma fst_eq_pair: "fst p = a \<Longrightarrow> p = (a, snd p)"
  by (cases p) simp




text \<open>
  C4. For a model key of the table, when the config file is missing, or the config file
  is there and the weights file is missing, \<open>convert\<close> prints its banner and one line
  naming the missing file and returns \<open>False\<close>; the world is otherwise unchanged: the
  same files, no library call, none of the later progress lines. Likewise
  \<open>export_int8_model\<close> for a missing checkpoint.
\<close>

theorem missing_input_file_stops_the_driver:
  "(map_of models model_key = Some info \<and>
    map_of (w_files w) (path_join MODELS_DIR (m_cfg info)) = None \<longrightarrow>
      convert lib MODELS_DIR model_key w =
        (Inr False,
         w\<lparr>w_out := w_out w @
            [Msg ''===='' [], Msg ''Converting {}'' [S (m_name info)], Msg ''===='' [],
             Msg ''Config file not found: {}'' [S (path_join MODELS_DIR (m_cfg info))]]\<rparr>)) \<and>
   (map_of models model_key = Some info \<and>
    map_of (w_files w) (path_join MODELS_DIR (m_cfg info)) \<noteq> None \<and>
    map_of (w_files w) (path_join MODELS_DIR (m_weights info)) = None \<longrightarrow>
      convert lib MODELS_DIR model_key w =
        (Inr False,
         w\<lparr>w_out := w_out w @
            [Msg ''===='' [], Msg ''Converting {}'' [S (m_name info)], Msg ''===='' [],
             Msg ''Weights file not found: {}'' [S (path_join MODELS_DIR (m_weights info))]]\<rparr>)) \<and>
   (map_of (w_files w) model_path = None \<longrightarrow>
      export_int8_model ylib model_path output_dir w =
        (Inr False,
         w\<lparr>w_out := w_out w @
            [Msg ''===='' [], Msg ''Loading model: {}'' [S model_path],
             Msg ''Model file does not exist: {}'' [S model_path],
             Msg ''Please download the model first: https://github.com/ultralytics/assets/releases'' []]\<rparr>))"
  by (auto simp: convert_def export_int8_model_def prog_simps ret_def Let_def)

theorem missing_input_file_stops_the_driver_witness:
  "map_of models ''1'' = Some \<lparr>m_name = ''YOLO-Fastest-1.1'',
             m_cfg = ''yolo-fastest-1.1/yolo-fastest-1.1.cfg'',
             m_weights = ''yolo-fastest-1.1/yolo-fastest-1.1.weights'',
             m_output = ''yolo-fastest-1.1.onnx''\<rparr> \<and>
   map_of (w_files world0) ''models/yolo-fastest-1.1/yolo-fastest-1.1.cfg'' = None \<and>
   map_of (w_files world_cfg_only) ''models/yolo-fastest-1.1/yolo-fastest-1.1.cfg'' \<noteq> None \<and>
   map_of (w_files world_cfg_only) ''models/yolo-fastest-1.1/yolo-fastest-1.1.weights'' = None \<and>
   map_of (w_files world0) ''yolov8n.pt'' = None \<and>
   convert good_torch_lib ''models'' ''1'' world0 =
     (Inr False,
      world0\<lparr>w_out :=
        [Msg ''===='' [], Msg ''Converting {}'' [S ''YOLO-Fastest-1.1''], Msg ''===='' [],
         Msg ''Config file not found: {}'' [S ''models/yolo-fastest-1.1/yolo-fastest-1.1.cfg'']]\<rparr>) \<and>
   convert good_torch_lib ''models'' ''1'' world_cfg_only =
     (Inr False,
      world_cfg_only\<lparr>w_out :=
        [Msg ''===='' [], Msg ''Converting {}'' [S ''YOLO-Fastest-1.1''], Msg ''===='' [],
         Msg ''Weights file not found: {}'' [S ''models/yolo-fastest-1.1/yolo-fastest-1.1.weights'']]\<rparr>) \<and>
   export_int8_model good_yolo_lib ''yolov8n.pt'' ''models'' world0 =
     (Inr False,
      world0\<lparr>w_out :=
        [Msg ''===='' [], Msg ''Loading model: {}'' [S ''yolov8n.pt''],
         Msg ''Model file does not exist: {}'' [S ''yolov8n.pt''],
         Msg ''Please download the model first: https://github.com/ultralytics/assets/releases'' []]\<rparr>)"
proof -
  let ?info = "\<lparr>m_name = ''YOLO-Fastest-1.1'',
             m_cfg = ''yolo-fastest-1.1/yolo-fastest-1.1.cfg'',
             m_weights = ''yolo-fastest-1.1/yolo-fastest-1.1.weights'',
             m_output = ''yolo-fastest-1.1.onnx''\<rparr>"
  have h1: "map_of (w_files world0) (path_join ''models'' (m_cfg ?info)) = None"
    by (simp add: world0_def)
  have h2: "map_of (w_files world_cfg_only) (path_join ''models'' (m_cfg ?info)) \<noteq> None"
    by (simp add: world_cfg_only_def path_join_models)
  have h3: "map_of (w_files world_cfg_only) (path_join ''models'' (m_weights ?info)) = None"
    by (simp add: world_cfg_only_def path_join_models)
  have h4: "map_of (w_files world0) ''yolov8n.pt'' = None"
    by (simp add: world0_def)
  note T = missing_input_file_stops_the_driver [of "''1''" ?info world0 "''models''" good_torch_lib "''yolov8n.pt''" good_yolo_lib "''models''"]
  note U = missing_input_file_stops_the_driver [of "''1''" ?info world_cfg_only "''models''" good_torch_lib "''yolov8n.pt''" good_yolo_lib "''models''"]
  from T models_1 h1 have a: "convert good_torch_lib ''models'' ''1'' world0 =
     (Inr False,
      world0\<lparr>w_out := w_out world0 @
        [Msg ''===='' [], Msg ''Converting {}'' [S (m_name ?info)], Msg ''===='' [],
         Msg ''Config file not found: {}'' [S (path_join ''models'' (m_cfg ?info))]]\<rparr>)"
    by blast
  from U models_1 h2 h3 have b: "convert good_torch_lib ''models'' ''1'' world_cfg_only =
     (Inr False,
      world_cfg_only\<lparr>w_out := w_out world_cfg_only @
        [Msg ''===='' [], Msg ''Converting {}'' [S (m_name ?info)], Msg ''===='' [],
         Msg ''Weights file not found: {}'' [S (path_join ''models'' (m_weights ?info))]]\<rparr>)"
    by blast
  from T h4 have c: "export_int8_model good_yolo_lib ''yolov8n.pt'' ''models'' world0 =
     (Inr False,
      world0\<lparr>w_out := w_out world0 @
        [Msg ''===='' [], Msg ''Loading model: {}'' [S ''yolov8n.pt''],
         Msg ''Model file does not exist: {}'' [S ''yolov8n.pt''],
         Msg ''Please download the model first: https://github.com/ultralytics/assets/releases'' []]\<rparr>)"
    by blast
  have o: "w_out world0 = []" "w_out world_cfg_only = []"
    by (simp_all add: world0_def world_cfg_only_def)
  from models_1 h1 h2 h3 h4 a b c show ?thesis
    by (simp add: o path_join_models)
qed




text \<open>
  C8, as the specification states it, fails for \<open>export_int8_model\<close>: when the library
  returns a path at which no file exists, the move is skipped and the function still
  returns \<open>True\<close>, with no file at the target path.
\<close>

theorem export_int8_model_reports_success_without_output:
  "fst (export_int8_model lazy_yolo_lib ''yolov8n.pt'' ''models'' world_pt) = Inr True \<and>
   w_files (snd (export_int8_model lazy_yolo_lib ''yolov8n.pt'' ''models'' world_pt)) =
     [(''yolov8n.pt'', ''checkpoint'')] \<and>
   path_join ''models'' (py_replace ''.pt'' '''' (basename ''yolov8n.pt'') @ ''_int8.onnx'') =
     ''models/yolov8n_int8.onnx''"
proof -
  have "py_replace ''.pt'' '''' ''yolov8n.pt'' = ''yolov8n''"
    by code_simp
  then show ?thesis
    by (simp add: export_int8_model_def export_try_def try_except_def lazy_yolo_lib_def
        good_yolo_lib_def world_pt_def prog_simps ret_def Let_def path_join_def basename_def
        startswith_def endswith_def)
qed

text \<open>
  C8, amended. When \<open>quantize_onnx_model\<close> returns \<open>True\<close>, a file of non-zero size is at
  the output path. When \<open>convert\<close> returns \<open>True\<close>, a file is at the model's output path.
  When \<open>export_int8_model\<close> returns \<open>True\<close>, the library's load and export calls
  returned, and the exported file, if it was at the path the library gave, is now at
  the target path; if it was not there, nothing was moved.
\<close>

theorem success_leaves_an_output_file:
  "(quantize_onnx_model qlib input_path output_path w = (Inr True, w') \<longrightarrow>
      (\<exists>c. map_of (w_files w') output_path = Some c \<and> 0 < length c)) \<and>
   (convert tlib MODELS_DIR model_key w = (Inr True, w') \<longrightarrow>
      (\<exists>info c. map_of models model_key = Some info \<and>
         map_of (w_files w') (path_join MODELS_DIR (m_output info)) = Some c)) \<and>
   (export_int8_model ylib model_path output_dir w = (Inr True, w') \<longrightarrow>
      (\<exists>m fs1 exported_path fs2.
         YOLO ylib model_path (w_files w) = (Inr m, fs1) \<and>
         YOLO_export ylib m fs1 = (Inr exported_path, fs2) \<and>
         (case map_of fs2 exported_path of
            None \<Rightarrow> w_files w' = fs2
          | Some c \<Rightarrow>
              map_of (w_files w')
                (path_join output_dir (py_replace ''.pt'' '''' (basename model_path) @ ''_int8.onnx'')) =
              Some c)))"
proof -
  have q: "\<exists>c. map_of (w_files w') output_path = Some c \<and> 0 < length c"
    if t: "quantize_onnx_model qlib input_path output_path w = (Inr True, w')"
  proof -
    from t obtain n w1 where "try_except (quantize_try qlib input_path output_path n) quantize_except w1 = (Inr True, w')"
      by (auto simp: quantize_onnx_model_def prog_simps ret_def split: option.splits if_splits)
    then have "quantize_try qlib input_path output_path n w1 = (Inr True, w')"
      by (rule try_except_True [rotated]) (simp add: quantize_except_eq)
    from quantize_try_True [OF this] show ?thesis by simp
  qed
  have c: "\<exists>info c. map_of models model_key = Some info \<and>
         map_of (w_files w') (path_join MODELS_DIR (m_output info)) = Some c"
    if t: "convert tlib MODELS_DIR model_key w = (Inr True, w')"
  proof -
    from t obtain info w1 where i: "map_of models model_key = Some info"
      and "try_except (convert_try tlib (path_join MODELS_DIR (m_cfg info))
        (path_join MODELS_DIR (m_weights info)) (path_join MODELS_DIR (m_output info))) convert_except w1 = (Inr True, w')"
      by (auto simp: convert_def prog_simps ret_def Let_def split: option.splits if_splits)
    then have "convert_try tlib (path_join MODELS_DIR (m_cfg info))
        (path_join MODELS_DIR (m_weights info)) (path_join MODELS_DIR (m_output info)) w1 = (Inr True, w')"
      by - (rule try_except_True [rotated], assumption, simp add: convert_except_eq)
    from convert_try_True [OF this] i show ?thesis by auto
  qed
  have e: "\<exists>m fs1 exported_path fs2.
         YOLO ylib model_path (w_files w) = (Inr m, fs1) \<and>
         YOLO_export ylib m fs1 = (Inr exported_path, fs2) \<and>
         (case map_of fs2 exported_path of
            None \<Rightarrow> w_files w' = fs2
          | Some c \<Rightarrow>
              map_of (w_files w')
                (path_join output_dir (py_replace ''.pt'' '''' (basename model_path) @ ''_int8.onnx'')) =
              Some c)"
    if t: "export_int8_model ylib model_path output_dir w = (Inr True, w')"
  proof -
    let ?w1 = "w\<lparr>w_out := w_out w @ [Msg ''===='' [], Msg ''Loading model: {}'' [S model_path]]\<rparr>"
    from t have "try_except (export_try ylib model_path output_dir) export_except ?w1 = (Inr True, w')"
      by (auto simp: export_int8_model_def prog_simps ret_def split: if_splits)
    then have "export_try ylib model_path output_dir ?w1 = (Inr True, w')"
      by (rule try_except_True [rotated]) (simp add: export_except_eq)
    from export_try_True [OF this] show ?thesis by simp
  qed
  from q c e show ?thesis by blast
qed

theorem success_leaves_an_output_file_witness:
  "quantize_onnx_model good_ort_lib ''models/a.onnx'' ''models/a_int8.onnx'' world_onnx =
     (Inr True, snd (quantize_onnx_model good_ort_lib ''models/a.onnx'' ''models/a_int8.onnx'' world_onnx)) \<and>
   (\<exists>c. map_of (w_files (snd (quantize_onnx_model good_ort_lib ''models/a.onnx'' ''models/a_int8.onnx'' world_onnx)))
          ''models/a_int8.onnx'' = Some c \<and> 0 < length c) \<and>
   convert good_torch_lib ''models'' ''2'' world_xl =
     (Inr True, snd (convert good_torch_lib ''models'' ''2'' world_xl)) \<and>
   (\<exists>info c. map_of models ''2'' = Some info \<and>
      map_of (w_files (snd (convert good_torch_lib ''models'' ''2'' world_xl)))
        (path_join ''models'' (m_output info)) = Some c) \<and>
   export_int8_model good_yolo_lib ''yolov8n.pt'' ''models'' world_pt =
     (Inr True, snd (export_int8_model good_yolo_lib ''yolov8n.pt'' ''models'' world_pt)) \<and>
   (\<exists>m fs1 exported_path fs2.
      YOLO good_yolo_lib ''yolov8n.pt'' (w_files world_pt) = (Inr m, fs1) \<and>
      YOLO_export good_yolo_lib m fs1 = (Inr exported_path, fs2) \<and>
      (case map_of fs2 exported_path of
         None \<Rightarrow> w_files (snd (export_int8_model good_yolo_lib ''yolov8n.pt'' ''models'' world_pt)) = fs2
       | Some c \<Rightarrow>
           map_of (w_files (snd (export_int8_model good_yolo_lib ''yolov8n.pt'' ''models'' world_pt)))
             (path_join ''models'' (py_replace ''.pt'' '''' (basename ''yolov8n.pt'') @ ''_int8.onnx'')) =
           Some c))"
proof -
  note q = fst_eq_pair [OF quantize_good_a]
  note c = fst_eq_pair [OF convert_good_xl]
  note e = fst_eq_pair [OF export_good_n]
  note T = success_leaves_an_output_file [of good_ort_lib "''models/a.onnx''" "''models/a_int8.onnx''" world_onnx
      "snd (quantize_onnx_model good_ort_lib ''models/a.onnx'' ''models/a_int8.onnx'' world_onnx)"]
  note U = success_leaves_an_output_file [of _ _ _ world_xl
      "snd (convert good_torch_lib ''models'' ''2'' world_xl)" good_torch_lib "''models''" "''2''"]
  note V = success_leaves_an_output_file [of _ _ _ world_pt
      "snd (export_int8_model good_yolo_lib ''yolov8n.pt'' ''models'' world_pt)" _ _ _
      good_yolo_lib "''yolov8n.pt''" "''models''"]
  from T q have 1: "\<exists>c. map_of (w_files (snd (quantize_onnx_model good_ort_lib ''models/a.onnx'' ''models/a_int8.onnx'' world_onnx)))
          ''models/a_int8.onnx'' = Some c \<and> 0 < length c"
    by blast
  from U c have 2: "\<exists>info c. map_of models ''2'' = Some info \<and>
      map_of (w_files (snd (convert good_torch_lib ''models'' ''2'' world_xl)))
        (path_join ''models'' (m_output info)) = Some c"
    by blast
  from V e have 3: "\<exists>m fs1 exported_path fs2.
      YOLO good_yolo_lib ''yolov8n.pt'' (w_files world_pt) = (Inr m, fs1) \<and>
      YOLO_export good_yolo_lib m fs1 = (Inr exported_path, fs2) \<and>
      (case map_of fs2 exported_path of
         None \<Rightarrow> w_files (snd (export_int8_model good_yolo_lib ''yolov8n.pt'' ''models'' world_pt)) = fs2
       | Some c \<Rightarrow>
           map_of (w_files (snd (export_int8_model good_yolo_lib ''yolov8n.pt'' ''models'' world_pt)))
             (path_join ''models'' (py_replace ''.pt'' '''' (basename ''yolov8n.pt'') @ ''_int8.onnx'')) =
           Some c)"
    by blast
  from q c e 1 2 3 show ?thesis by blast
qed

section \<open>Properties of whole runs\<close>

lemma growsI: "(\<And>w. prefix (w_out w) (w_out (snd (m w)))) \<Longrightarrow> grows m"
  by (simp add: grows_def)

lemma growsD: "grows m \<Longrightarrow> prefix (w_out w) (w_out (snd (m w)))"
  by (simp add: grows_def)

lemma grows_ret: "grows (ret a)"
  by (simp add: grows_def ret_def)

lemma grows_raise: "grows (raise e)"
  by (simp add: grows_def raise_def)

lemma grows_print: "grows (print t a)"
  by (simp add: grows_def print_def)

lemma grows_lift: "grows (lift r)"
  by (simp add: grows_def lift_def)

lemma grows_read_fs: "grows (read_fs f)"
  by (simp add: grows_def read_fs_def)

lemma grows_lib_call: "grows (lib_call n f)"
  by (simp add: grows_def lib_call_def split: prod.splits)

lemma grows_path_exists: "grows (path_exists p)"
  by (simp add: grows_def path_exists_def)

lemma grows_getsize: "grows (getsize p)"
  by (simp add: grows_def getsize_def split: option.splits)

lemma grows_os_listdir: "grows (os_listdir d)"
  by (simp add: grows_def os_listdir_def)

lemma grows_makedirs: "grows (makedirs d)"
  by (simp add: grows_def makedirs_def)

lemma grows_shutil_move: "grows (shutil_move src dst)"
  by (simp add: grows_def shutil_move_def split: option.splits)

lemma grows_bind:
  assumes "grows m" and "\<And>a. grows (k a)"
  shows "grows (bind m k)"
proof (rule growsI)
  fix w
  obtain r w1 where m: "m w = (r, w1)" by (cases "m w")
  have p1: "prefix (w_out w) (w_out w1)"
    using growsD [OF assms(1), of w] m by simp
  show "prefix (w_out w) (w_out (snd (bind m k w)))"
  proof (cases r)
    case (Inl e)
    with m p1 show ?thesis by (simp add: bind_def)
  next
    case (Inr a)
    have "prefix (w_out w1) (w_out (snd (k a w1)))"
      by (rule growsD [OF assms(2)])
    with p1 Inr m show ?thesis
      by (auto simp: bind_def intro: prefix_order.trans)
  qed
qed

lemma grows_seq: "grows m \<Longrightarrow> grows k \<Longrightarrow> grows (seq m k)"
  by (simp add: seq_def grows_bind)

lemma grows_seqs: "(\<And>m. m \<in> set ms \<Longrightarrow> grows m) \<Longrightarrow> grows k \<Longrightarrow> grows (seqs ms k)"
  by (induction ms) (simp_all add: seqs_def grows_seq)

lemma grows_try_except:
  assumes "grows m" and "\<And>e. grows (h e)"
  shows "grows (try_except m h)"
proof (rule growsI)
  fix w
  obtain r w1 where m: "m w = (r, w1)" by (cases "m w")
  have p1: "prefix (w_out w) (w_out w1)"
    using growsD [OF assms(1), of w] m by simp
  show "prefix (w_out w) (w_out (snd (try_except m h w)))"
  proof (cases r)
    case (Inl e)
    have "prefix (w_out w1) (w_out (snd (h e w1)))"
      by (rule growsD [OF assms(2)])
    with p1 Inl m show ?thesis
      by (auto simp: try_except_def intro: prefix_order.trans)
  next
    case (Inr a)
    with m p1 show ?thesis by (simp add: try_except_def)
  qed
qed

lemmas grows_intros =
  grows_ret grows_raise grows_print grows_lift grows_read_fs grows_lib_call grows_path_exists
  grows_getsize grows_os_listdir grows_makedirs grows_shutil_move grows_bind grows_seq grows_seqs grows_try_except



































lemma grows_usage_hint: "m \<in> set usage_hint \<Longrightarrow> grows m"
  by (auto simp: usage_hint_def intro!: grows_intros)





























lemma length_example_weights: "length example_weights = 27"
  by (simp add: example_weights_def)

lemma load_example_weights:
  "fs_open fs p = Inr example_weights \<Longrightarrow>
   \<exists>ws. load_weights fs p = Inr ws \<and> length ws = 1"
  by (simp add: load_weights_def load_weights_read_weights chunks_length length_example_weights)




















end
